theory Spec2Isabelle
  imports Main "HOL-Library.Sublist"
begin

section \<open>Values of the JavaScript runtime\<close>

text \<open>
  Request bodies are parsed JSON; the handlers also build dates and native
  identifiers and compute with numbers. One datatype covers them all.
  Numbers of the model are the integers and \<open>NaN\<close> (fractions and infinities are
  outside the model). An object is the list of its own properties in insertion
  order, with distinct keys.
\<close>

datatype jsval =
    Undefined
  | Null
  | Bool bool
  | Num int
  | NaN
  | Str string
  | Arr "jsval list"
  | Obj "(string \<times> jsval) list"
  | Date int
  | ObjectId string

text \<open>JavaScript truthiness, as used by \<open>!x\<close>, \<open>x ? a : b\<close>, \<open>x || y\<close> and \<open>x && y\<close>.\<close>

fun truthy :: "jsval \<Rightarrow> bool" where
  "truthy Undefined = False"
| "truthy Null = False"
| "truthy (Bool b) = b"
| "truthy (Num n) = (n \<noteq> 0)"
| "truthy NaN = False"
| "truthy (Str s) = (s \<noteq> [])"
| "truthy (Arr xs) = True"
| "truthy (Obj kvs) = True"
| "truthy (Date t) = True"
| "truthy (ObjectId h) = True"

text \<open>Property read \<open>v.k\<close>, as the destructuring \<open>const { k } = v\<close> does it: a
  property that is not there reads as \<open>undefined\<close>.\<close>

fun getProp :: "jsval \<Rightarrow> string \<Rightarrow> jsval" where
  "getProp (Obj kvs) k = (case map_of kvs k of None \<Rightarrow> Undefined | Some v \<Rightarrow> v)"
| "getProp v k = Undefined"

text \<open>Property write \<open>o.k = v\<close> on the property list: an existing key keeps its
  place, a new key goes to the end.\<close>

fun setProp :: "(string \<times> jsval) list \<Rightarrow> string \<Rightarrow> jsval \<Rightarrow> (string \<times> jsval) list" where
  "setProp [] k v = [(k, v)]"
| "setProp ((k', v') # kvs) k v =
     (if k' = k then (k, v) # kvs else (k', v') # setProp kvs k v)"

text \<open>\<open>Array.isArray\<close>.\<close>

fun isArray :: "jsval \<Rightarrow> bool" where
  "isArray (Arr xs) = True"
| "isArray v = False"

text \<open>\<open>v.length\<close> of an array.\<close>

fun arrLength :: "jsval \<Rightarrow> nat" where
  "arrLength (Arr xs) = length xs"
| "arrLength v = 0"

text \<open>\<open>s.replace(p, r)\<close> with a string pattern: the first occurrence of \<open>p\<close> in
  \<open>s\<close> is replaced, wherever it stands; without an occurrence \<open>s\<close> is returned.\<close>

fun replaceFirst :: "string \<Rightarrow> string \<Rightarrow> string \<Rightarrow> string" where
  "replaceFirst p r [] = (if p = [] then r else [])"
| "replaceFirst p r (c # cs) =
     (if prefix p (c # cs) then r @ drop (length p) (c # cs)
      else c # replaceFirst p r cs)"


text \<open>\<open>a || b\<close>.\<close>

definition orElse :: "jsval \<Rightarrow> jsval \<Rightarrow> jsval" where
  "orElse a b = (if truthy a then a else b)"

text \<open>\<open>a * b\<close> on values that are already numbers; anything else gives \<open>NaN\<close>.\<close>

fun jsTimes :: "jsval \<Rightarrow> jsval \<Rightarrow> jsval" where
  "jsTimes (Num a) (Num b) = Num (a * b)"
| "jsTimes a b = NaN"

section \<open>Requests, responses and the database client\<close>

datatype verb = GET | POST | PUT | DELETE

text \<open>A request as the handlers see it: the path is the one the router matched,
  \<open>authorization\<close> is \<open>req.headers['authorization']\<close> (\<open>None\<close> when the header is
  absent), \<open>body\<close> is \<open>req.body\<close> after the JSON body parser and \<open>query\<close> is
  \<open>req.query\<close>.\<close>

record request =
  verb :: verb
  path :: string
  authorization :: "string option"
  body :: jsval
  query :: jsval

record response =
  status :: nat
  headers :: "(string \<times> jsval) list"
  payload :: jsval

text \<open>\<open>res.status(n).json(v)\<close>, \<open>res.json(v)\<close> and \<open>res.send(text)\<close>.\<close>

definition json :: "nat \<Rightarrow> jsval \<Rightarrow> response" where
  "json n v = \<lparr>status = n, headers = [], payload = v\<rparr>"

definition errorJson :: "nat \<Rightarrow> string \<Rightarrow> response" where
  "errorJson n m = json n (Obj [(''error'', Str m)])"

definition healthMessage :: string where
  "healthMessage = CHR 0xF0 # CHR 0x9F # CHR 0xA7 # CHR 0xA9 # '' MongoDB Proxy is running''"

definition sendText :: "string \<Rightarrow> response" where
  "sendText t = \<lparr>status = 200, headers = [], payload = Str t\<rparr>"

text \<open>What the framework itself answers: when no route matches, and when a
  middleware throws and the application has no error middleware. Only the
  status is modelled.\<close>

definition notFound :: response where
  "notFound = \<lparr>status = 404, headers = [], payload = Undefined\<rparr>"

definition defaultError :: response where
  "defaultError = \<lparr>status = 500, headers = [], payload = Undefined\<rparr>"

text \<open>The operations of the database client that the handlers invoke. The first two
  arguments are the database name and the collection name; building the handles
  \<open>mongoClient.db(dbName)\<close> and \<open>db.collection(collectionName)\<close> is counted into the
  operation that uses them. \<open>ListCollections\<close> takes a filter and its options.\<close>

datatype dbop =
    ListCollections jsval jsval
  | CreateCollection jsval jsval
  | CreateIndex jsval jsval jsval
  | CreateSearchIndex jsval jsval jsval
  | Drop jsval jsval
  | Count jsval jsval jsval
  | FindToArray jsval jsval jsval jsval jsval
  | AggregateToArray jsval jsval jsval
  | InsertOne jsval jsval jsval
  | InsertMany jsval jsval jsval
  | FindOneAndUpdate jsval jsval jsval jsval jsval
  | FindOneAndDelete jsval jsval jsval

text \<open>
  What the module takes from outside the repository:
  \<^item> \<open>allowedTokens\<close>: \<open>ALLOWED_TOKENS\<close> of the environment, split at commas;
  \<^item> \<open>dbClient\<close>: the database client, on a database state of its own; an operation
    either rejects with an error (\<open>Inl\<close> its message) or resolves with a value;
  \<^item> \<open>newObjectId\<close>: the driver's \<open>new ObjectId(v)\<close>, which throws on an input it does
    not accept;
  \<^item> \<open>now\<close>: the value of \<open>new Date()\<close> during the request;
  \<^item> \<open>toNumber\<close>: the runtime's \<open>Number(v)\<close> on strings, arrays, objects and dates;
  \<^item> \<open>toText\<close>: the runtime's conversion to string inside a template literal;
  \<^item> \<open>forwardsRejections\<close>: whether the framework passes the rejection of a promise
    returned by a route handler on to the error middleware.
\<close>

record 's env =
  allowedTokens :: "string list"
  dbClient :: "dbop \<Rightarrow> 's \<Rightarrow> (string + jsval) \<times> 's"
  newObjectId :: "jsval \<Rightarrow> string + jsval"
  now :: jsval
  toNumber :: "jsval \<Rightarrow> jsval"
  toText :: "jsval \<Rightarrow> string"
  forwardsRejections :: bool

text \<open>\<open>Number(v)\<close>.\<close>

fun jsNumber :: "'s env \<Rightarrow> jsval \<Rightarrow> jsval" where
  "jsNumber E Undefined = NaN"
| "jsNumber E Null = Num 0"
| "jsNumber E (Bool b) = Num (if b then 1 else 0)"
| "jsNumber E (Num n) = Num n"
| "jsNumber E NaN = NaN"
| "jsNumber E v = toNumber E v"

text \<open>\<open>`${v}`\<close>.\<close>

fun template :: "'s env \<Rightarrow> jsval \<Rightarrow> string" where
  "template E (Str s) = s"
| "template E v = toText E v"

text \<open>The database state together with the operations invoked so far, each with
  its outcome.\<close>

record 's world =
  dbState :: 's
  calls :: "(dbop \<times> (string + jsval)) list"

text \<open>An asynchronous computation: it rejects (\<open>Inl\<close> the error's message) or
  resolves, and leaves a world behind.\<close>

type_synonym ('s, 'a) promise = "(string + 'a) \<times> 's world"

definition call :: "'s env \<Rightarrow> dbop \<Rightarrow> 's world \<Rightarrow> ('s, jsval) promise" where
  "call E op w =
     (case dbClient E op (dbState w) of
        (r, s') \<Rightarrow> (r, \<lparr>dbState = s', calls = calls w @ [(op, r)]\<rparr>))"

text \<open>\<open>await\<close>: a rejection ends the handler, a resolution continues it.\<close>

definition await :: "('s, 'a) promise \<Rightarrow> ('a \<Rightarrow> 's world \<Rightarrow> ('s, 'b) promise) \<Rightarrow> ('s, 'b) promise" where
  "await m f = (case m of (Inl e, w) \<Rightarrow> (Inl e, w) | (Inr a, w) \<Rightarrow> f a w)"

text \<open>A synchronous step that may throw, inside an \<open>async\<close> function.\<close>

definition attempt :: "string + 'a \<Rightarrow> 's world \<Rightarrow> ('s, 'a) promise" where
  "attempt r w = (r, w)"


section \<open>src/app.js\<close>

text \<open>The authorization middleware's test
  \<open>token && allowedTokens.includes(token.replace('Bearer ', ''))\<close>.\<close>

definition authorized :: "'s env \<Rightarrow> request \<Rightarrow> bool" where
  "authorized E req =
     (case authorization req of
        None \<Rightarrow> False
      | Some token \<Rightarrow> token \<noteq> [] \<and> replaceFirst ''Bearer '' [] token \<in> set (allowedTokens E))"

text \<open>The second middleware's test \<open>!collectionName || !dbName\<close>.\<close>

definition missingTarget :: "request \<Rightarrow> bool" where
  "missingTarget req =
     (\<not> truthy (getProp (body req) ''collectionName'') \<or> \<not> truthy (getProp (body req) ''dbName''))"

definition app_create :: "'s env \<Rightarrow> request \<Rightarrow> 's world \<Rightarrow> ('s, response) promise" where
  "app_create E req w =
     (let dbName = getProp (body req) ''dbName'';
          collectionName = getProp (body req) ''collectionName'';
          index = getProp (body req) ''index'';
          searchIndex = getProp (body req) ''searchIndex''
      in await (call E (CreateCollection dbName collectionName) w) (\<lambda>_ w.
         await (if truthy index then call E (CreateIndex dbName collectionName index) w
                else (Inr Undefined, w)) (\<lambda>_ w.
         await (if truthy searchIndex then call E (CreateSearchIndex dbName collectionName searchIndex) w
                else (Inr Undefined, w)) (\<lambda>_ w.
         (Inr (json 201 (Obj [(''message'',
                 Str (''Collection '' @ template E collectionName @ '' created''))])), w)))))"

definition app_delete :: "'s env \<Rightarrow> request \<Rightarrow> 's world \<Rightarrow> ('s, response) promise" where
  "app_delete E req w =
     (let dbName = getProp (body req) ''dbName'';
          collectionName = getProp (body req) ''collectionName''
      in await (call E (Drop dbName collectionName) w) (\<lambda>_ w.
         (Inr (json 200 (Obj [(''message'',
                 Str (''Collection '' @ template E collectionName @ '' deleted''))])), w)))"

text \<open>\<open>page ? Number(page) * pageSize : 0\<close> and \<open>pageSize ? Number(pageSize) || 10 : 10\<close>.\<close>

definition findSkip :: "'s env \<Rightarrow> jsval \<Rightarrow> jsval \<Rightarrow> jsval" where
  "findSkip E page pageSize =
     (if truthy page then jsTimes (jsNumber E page) (jsNumber E pageSize) else Num 0)"

definition findLimit :: "'s env \<Rightarrow> jsval \<Rightarrow> jsval" where
  "findLimit E pageSize =
     (if truthy pageSize then orElse (jsNumber E pageSize) (Num 10) else Num 10)"

definition app_find :: "'s env \<Rightarrow> request \<Rightarrow> 's world \<Rightarrow> ('s, response) promise" where
  "app_find E req w =
     (let dbName = getProp (body req) ''dbName'';
          collectionName = getProp (body req) ''collectionName'';
          filter = getProp (body req) ''filter'';
          page = getProp (body req) ''page'';
          pageSize = getProp (body req) ''pageSize'';
          skip = findSkip E page pageSize;
          limit = findLimit E pageSize
      in await (call E (Count dbName collectionName (orElse filter (Obj []))) w) (\<lambda>count w.
         await (call E (FindToArray dbName collectionName (orElse filter (Obj [])) skip limit) w)
           (\<lambda>results w.
         (Inr \<lparr>status = 200,
               headers = [(''TotalRecords'', count),
                          (''Access-Control-Expose-Headers'', Str ''TotalRecords'')],
               payload = results\<rparr>, w))))"

definition app_aggregate :: "'s env \<Rightarrow> request \<Rightarrow> 's world \<Rightarrow> ('s, response) promise" where
  "app_aggregate E req w =
     (let dbName = getProp (body req) ''dbName'';
          collectionName = getProp (body req) ''collectionName'';
          pipeline = getProp (body req) ''pipeline''
      in if \<not> truthy pipeline
         then (Inr (errorJson 400 ''Missing collection or pipeline param''), w)
         else await (call E (AggregateToArray dbName collectionName pipeline) w) (\<lambda>results w.
              (Inr (json 200 results), w)))"

definition app_insert :: "'s env \<Rightarrow> request \<Rightarrow> 's world \<Rightarrow> ('s, response) promise" where
  "app_insert E req w =
     (let dbName = getProp (body req) ''dbName'';
          collectionName = getProp (body req) ''collectionName'';
          document = getProp (body req) ''document''
      in if \<not> truthy document
         then (Inr (errorJson 400 ''Missing collection or document in body''), w)
         else await (call E (InsertOne dbName collectionName document) w) (\<lambda>result w.
              (Inr (json 201 result), w)))"

definition app_insertMany :: "'s env \<Rightarrow> request \<Rightarrow> 's world \<Rightarrow> ('s, response) promise" where
  "app_insertMany E req w =
     (let dbName = getProp (body req) ''dbName'';
          collectionName = getProp (body req) ''collectionName'';
          documents = getProp (body req) ''documents''
      in if \<not> isArray documents \<or> arrLength documents = 0
         then (Inr (errorJson 400 ''Missing collection or documents in body''), w)
         else await (call E (InsertMany dbName collectionName documents) w) (\<lambda>result w.
              (Inr (json 201 result), w)))"

definition app_findByIdAndUpdate :: "'s env \<Rightarrow> request \<Rightarrow> 's world \<Rightarrow> ('s, response) promise" where
  "app_findByIdAndUpdate E req w =
     (let dbName = getProp (body req) ''dbName'';
          collectionName = getProp (body req) ''collectionName'';
          id = getProp (body req) ''id'';
          update = getProp (body req) ''update''
      in if \<not> truthy id \<or> \<not> truthy update
         then (Inr (errorJson 400 ''Missing collection, id or update in body''), w)
         else await (attempt (newObjectId E id) w) (\<lambda>oid w.
              await (call E (FindOneAndUpdate dbName collectionName
                               (Obj [(''_id'', oid)])
                               (Obj [(''$set'', update)])
                               (Obj [(''returnNewDocument'', Bool True)])) w) (\<lambda>result w.
              (Inr (json 200 result), w))))"

definition app_findByIdAndDelete :: "'s env \<Rightarrow> request \<Rightarrow> 's world \<Rightarrow> ('s, response) promise" where
  "app_findByIdAndDelete E req w =
     (let dbName = getProp (body req) ''dbName'';
          collectionName = getProp (body req) ''collectionName'';
          id = getProp (body req) ''id''
      in if \<not> truthy id
         then (Inr (errorJson 400 ''Missing collection or id in body''), w)
         else await (attempt (newObjectId E id) w) (\<lambda>oid w.
              await (call E (FindOneAndDelete dbName collectionName (Obj [(''_id'', oid)])) w)
                (\<lambda>result w.
              (Inr (json 200 result), w))))"

text \<open>The routes of src/app.js after the two middlewares, in registration order.\<close>

definition app_route ::
  "verb \<Rightarrow> string \<Rightarrow> ('s env \<Rightarrow> request \<Rightarrow> 's world \<Rightarrow> ('s, response) promise) option" where
  "app_route m p =
     (if m = POST \<and> p = ''/create'' then Some app_create
      else if m = DELETE \<and> p = ''/delete'' then Some app_delete
      else if m = POST \<and> p = ''/find'' then Some app_find
      else if m = POST \<and> p = ''/aggregate'' then Some app_aggregate
      else if m = POST \<and> p = ''/insert'' then Some app_insert
      else if m = POST \<and> p = ''/insertMany'' then Some app_insertMany
      else if m = POST \<and> p = ''/findByIdAndUpdate'' then Some app_findByIdAndUpdate
      else if m = DELETE \<and> p = ''/findByIdAndDelete'' then Some app_findByIdAndDelete
      else None)"

text \<open>The error middleware \<open>res.status(500).json({ error: err.message })\<close>.\<close>

definition errorMiddleware :: "string \<Rightarrow> response" where
  "errorMiddleware m = errorJson 500 m"

text \<open>The handlers of src/app.js are bare \<open>async\<close> functions. A handler that resolves
  has sent its response. A handler that rejects has sent none; the error middleware
  answers if the framework hands the rejection to it, otherwise the request gets no
  response (\<open>None\<close>).\<close>

definition app_settle :: "'s env \<Rightarrow> ('s, response) promise \<Rightarrow> response option \<times> 's world" where
  "app_settle E r =
     (case r of
        (Inr res, w) \<Rightarrow> (Some res, w)
      | (Inl m, w) \<Rightarrow> (if forwardsRejections E then Some (errorMiddleware m) else None, w))"

text \<open>The whole application: \<open>GET /health\<close>, the authorization middleware, the
  middleware for the database and collection names, the routes.\<close>

definition app :: "'s env \<Rightarrow> request \<Rightarrow> 's world \<Rightarrow> response option \<times> 's world" where
  "app E req w =
     (if verb req = GET \<and> path req = ''/health'' then (Some (sendText healthMessage), w)
      else if \<not> authorized E req then (Some (errorJson 401 ''Unauthorized''), w)
      else if missingTarget req then (Some (errorJson 401 ''Missing collection or db in body''), w)
      else (case app_route (verb req) (path req) of
              None \<Rightarrow> (Some notFound, w)
            | Some handler \<Rightarrow> app_settle E (handler E req w)))"


section \<open>The variant with timestamps (src/unnamed/part_001)\<close>

text \<open>Decimal digits of a natural number, for the index keys of arrays and strings.\<close>

fun showNat :: "nat \<Rightarrow> string" where
  "showNat n =
     (if n < 10 then [char_of (48 + n)]
      else showNat (n div 10) @ [char_of (48 + n mod 10)])"

declare showNat.simps [simp del]

text \<open>The own enumerable properties that an object spread \<open>{ ...v }\<close> copies: those of
  an object, the indexed elements of an array, the indexed characters of a string
  (one character per code unit), none for the other values.\<close>

fun ownProps :: "jsval \<Rightarrow> (string \<times> jsval) list" where
  "ownProps (Obj kvs) = kvs"
| "ownProps (Arr xs) = zip (map showNat [0 ..< length xs]) xs"
| "ownProps (Str s) = zip (map showNat [0 ..< length s]) (map (\<lambda>c. Str [c]) s)"
| "ownProps v = []"

text \<open>\<open>asyncHandler\<close>: \<open>Promise.resolve(fn(req, res, next)).catch(next)\<close> hands every
  rejection of the handler to the error middleware.\<close>

definition asyncHandler :: "('s, response) promise \<Rightarrow> response option \<times> 's world" where
  "asyncHandler r =
     (case r of
        (Inr res, w) \<Rightarrow> (Some res, w)
      | (Inl m, w) \<Rightarrow> (Some (errorMiddleware m), w))"

text \<open>\<open>if (filter && filter._id) { filter._id = new ObjectId(filter._id); }\<close>\<close>

definition coerceFilterId :: "'s env \<Rightarrow> jsval \<Rightarrow> 's world \<Rightarrow> ('s, jsval) promise" where
  "coerceFilterId E flt w =
     (if truthy flt \<and> truthy (getProp flt ''_id'')
      then await (attempt (newObjectId E (getProp flt ''_id'')) w) (\<lambda>oid w.
             (Inr (Obj (setProp (ownProps flt) ''_id'' oid)), w))
      else (Inr flt, w))"

definition p1_find :: "'s env \<Rightarrow> request \<Rightarrow> 's world \<Rightarrow> ('s, response) promise" where
  "p1_find E req w =
     (let dbName = getProp (body req) ''dbName'';
          collectionName = getProp (body req) ''collectionName'';
          filter = getProp (body req) ''filter'';
          page = getProp (body req) ''page'';
          pageSize = getProp (body req) ''pageSize'';
          skip = findSkip E page pageSize;
          limit = findLimit E pageSize
      in await (coerceFilterId E filter w) (\<lambda>filter w.
         await (call E (Count dbName collectionName (orElse filter (Obj []))) w) (\<lambda>count w.
         await (call E (FindToArray dbName collectionName (orElse filter (Obj [])) skip limit) w)
           (\<lambda>results w.
         (Inr \<lparr>status = 200,
               headers = [(''TotalRecords'', count),
                          (''Access-Control-Expose-Headers'', Str ''TotalRecords'')],
               payload = results\<rparr>, w)))))"

text \<open>\<open>{ ...document, createdAt: now, updatedAt: now }\<close>\<close>

definition stamped :: "jsval \<Rightarrow> jsval \<Rightarrow> jsval" where
  "stamped document t = Obj (setProp (setProp (ownProps document) ''createdAt'' t) ''updatedAt'' t)"

definition p1_insert :: "'s env \<Rightarrow> request \<Rightarrow> 's world \<Rightarrow> ('s, response) promise" where
  "p1_insert E req w =
     (let dbName = getProp (body req) ''dbName'';
          collectionName = getProp (body req) ''collectionName'';
          document = getProp (body req) ''document''
      in if \<not> truthy document
         then (Inr (errorJson 400 ''Missing collection or document in body''), w)
         else await (call E (InsertOne dbName collectionName (stamped document (now E))) w)
                (\<lambda>result w.
              (Inr (json 201 result), w)))"

text \<open>\<open>{ $set: { ...update, updatedAt: new Date() } }\<close>\<close>

definition touched :: "jsval \<Rightarrow> jsval \<Rightarrow> jsval" where
  "touched update t = Obj [(''$set'', Obj (setProp (ownProps update) ''updatedAt'' t))]"

definition p1_findByIdAndUpdate :: "'s env \<Rightarrow> request \<Rightarrow> 's world \<Rightarrow> ('s, response) promise" where
  "p1_findByIdAndUpdate E req w =
     (let dbName = getProp (body req) ''dbName'';
          collectionName = getProp (body req) ''collectionName'';
          id = getProp (body req) ''id'';
          update = getProp (body req) ''update''
      in if \<not> truthy id \<or> \<not> truthy update
         then (Inr (errorJson 400 ''Missing collection, id or update in body''), w)
         else await (attempt (newObjectId E id) w) (\<lambda>oid w.
              await (call E (FindOneAndUpdate dbName collectionName
                               (Obj [(''_id'', oid)])
                               (touched update (now E))
                               (Obj [(''returnNewDocument'', Bool True)])) w) (\<lambda>result w.
              (Inr (json 200 result), w))))"

definition p1_findByIdAndPush :: "'s env \<Rightarrow> request \<Rightarrow> 's world \<Rightarrow> ('s, response) promise" where
  "p1_findByIdAndPush E req w =
     (let dbName = getProp (body req) ''dbName'';
          collectionName = getProp (body req) ''collectionName'';
          id = getProp (body req) ''id'';
          update = getProp (body req) ''update''
      in if \<not> truthy id \<or> \<not> truthy update
         then (Inr (errorJson 400 ''Missing collection, id or update in body''), w)
         else await (attempt (newObjectId E id) w) (\<lambda>oid w.
              await (call E (FindOneAndUpdate dbName collectionName
                               (Obj [(''_id'', oid)])
                               (Obj (ownProps update))
                               (Obj [(''returnNewDocument'', Bool True)])) w) (\<lambda>result w.
              (Inr (json 200 result), w))))"

text \<open>The routes of the variant. \<open>/create\<close>, \<open>/delete\<close>, \<open>/aggregate\<close>, \<open>/insertMany\<close> and
  \<open>/findByIdAndDelete\<close> have the handler bodies of src/app.js.\<close>

definition p1_route ::
  "verb \<Rightarrow> string \<Rightarrow> ('s env \<Rightarrow> request \<Rightarrow> 's world \<Rightarrow> ('s, response) promise) option" where
  "p1_route m p =
     (if m = POST \<and> p = ''/create'' then Some app_create
      else if m = DELETE \<and> p = ''/delete'' then Some app_delete
      else if m = POST \<and> p = ''/find'' then Some p1_find
      else if m = POST \<and> p = ''/aggregate'' then Some app_aggregate
      else if m = POST \<and> p = ''/insert'' then Some p1_insert
      else if m = POST \<and> p = ''/insertMany'' then Some app_insertMany
      else if m = POST \<and> p = ''/findByIdAndUpdate'' then Some p1_findByIdAndUpdate
      else if m = POST \<and> p = ''/findByIdAndPush'' then Some p1_findByIdAndPush
      else if m = DELETE \<and> p = ''/findByIdAndDelete'' then Some app_findByIdAndDelete
      else None)"

definition p1 :: "'s env \<Rightarrow> request \<Rightarrow> 's world \<Rightarrow> response option \<times> 's world" where
  "p1 E req w =
     (if verb req = GET \<and> path req = ''/health'' then (Some (sendText healthMessage), w)
      else if \<not> authorized E req then (Some (errorJson 401 ''Unauthorized''), w)
      else if missingTarget req then (Some (errorJson 401 ''Missing collection or db in body''), w)
      else (case p1_route (verb req) (path req) of
              None \<Rightarrow> (Some notFound, w)
            | Some handler \<Rightarrow> asyncHandler (handler E req w)))"


section \<open>The variant with one database (src/unnamed/part_000)\<close>

text \<open>This variant declares the module variable \<open>db\<close> and never assigns it
  (\<open>connectDB\<close> stores the handle in \<open>app.locals.db\<close>). Its handlers are modelled over
  the value of that variable: \<open>None\<close> is \<open>undefined\<close>, \<open>Some c\<close> a client handle.
  Reading a method of \<open>undefined\<close> throws a TypeError with the runtime's message.\<close>

definition undefinedRead :: "string \<Rightarrow> string" where
  "undefinedRead k =
     ''Cannot read properties of undefined (reading '' @ [CHR 0x27] @ k @ [CHR 0x27] @ '')''"

definition p0_call ::
  "(dbop \<Rightarrow> 's \<Rightarrow> (string + jsval) \<times> 's) option \<Rightarrow> string \<Rightarrow> dbop \<Rightarrow> 's world \<Rightarrow> ('s, jsval) promise" where
  "p0_call db method op w =
     (case db of
        None \<Rightarrow> (Inl (undefinedRead method), w)
      | Some c \<Rightarrow>
          (case c op (dbState w) of
             (r, s') \<Rightarrow> (r, \<lparr>dbState = s', calls = calls w @ [(op, r)]\<rparr>)))"

text \<open>\<open>try { ... } catch (err) { res.status(500).json({ error: err.message }); }\<close>: the
  body either has sent a response, or has ended without one, or has thrown.\<close>

definition tryCatch :: "('s, response option) promise \<Rightarrow> response option \<times> 's world" where
  "tryCatch r =
     (case r of
        (Inr res, w) \<Rightarrow> (res, w)
      | (Inl m, w) \<Rightarrow> (Some (errorJson 500 m), w))"

text \<open>\<open>a === b\<close>: values that are objects are equal only to themselves, and two
  values that meet here are never the same object; \<open>NaN\<close> equals nothing.\<close>

fun strictEq :: "jsval \<Rightarrow> jsval \<Rightarrow> bool" where
  "strictEq NaN b = False"
| "strictEq (Arr xs) b = False"
| "strictEq (Obj kvs) b = False"
| "strictEq (Date t) b = False"
| "strictEq (ObjectId h) b = False"
| "strictEq a b = (a = b)"

text \<open>\<open>collections.some((col) => col.name === collection)\<close> on the array that the
  cursor returned.\<close>

fun someNamed :: "jsval \<Rightarrow> jsval \<Rightarrow> string + bool" where
  "someNamed (Arr cols) collection =
     Inr (list_ex (\<lambda>col. strictEq (getProp col ''name'') collection) cols)"
| "someNamed v collection = Inl ''collections.some is not a function''"

text \<open>In \<open>/create\<close> the block that creates the collection declares
  \<open>const collection = db.collection(collection)\<close>, so the name \<open>collection\<close> in
  \<open>db.createCollection(collection)\<close> one line earlier is the block's own constant,
  read before its initialisation: a ReferenceError. When the collection already
  exists the handler ends without a response.\<close>

definition p0_create ::
  "(dbop \<Rightarrow> 's \<Rightarrow> (string + jsval) \<times> 's) option \<Rightarrow> 's env \<Rightarrow> request \<Rightarrow> 's world \<Rightarrow> response option \<times> 's world" where
  "p0_create db E req w =
     (let collection = getProp (body req) ''collection''
      in if \<not> truthy collection
         then (Some (errorJson 400 ''Missing collection or index in body''), w)
         else tryCatch
           (await (p0_call db ''listCollections''
                     (ListCollections (Obj []) (Obj [(''nameOnly'', Bool True)])) w) (\<lambda>collections w.
            await (attempt (someNamed collections collection) w) (\<lambda>found w.
            if \<not> found
            then (Inl (''Cannot access '' @ [CHR 0x27] @ ''collection'' @ [CHR 0x27] @ '' before initialization''), w)
            else (Inr None, w)))))"

definition p0_delete ::
  "(dbop \<Rightarrow> 's \<Rightarrow> (string + jsval) \<times> 's) option \<Rightarrow> 's env \<Rightarrow> request \<Rightarrow> 's world \<Rightarrow> response option \<times> 's world" where
  "p0_delete db E req w =
     (let collection = getProp (body req) ''collection''
      in if \<not> truthy collection
         then (Some (errorJson 400 ''Missing collection in body''), w)
         else tryCatch
           (await (p0_call db ''collection'' (Drop Undefined collection) w) (\<lambda>_ w.
            (Inr (Some (json 200 (Obj [(''message'',
                   Str (''Collection '' @ template E collection @ '' deleted''))]))), w))))"

definition p0_find ::
  "(dbop \<Rightarrow> 's \<Rightarrow> (string + jsval) \<times> 's) option \<Rightarrow> 's env \<Rightarrow> request \<Rightarrow> 's world \<Rightarrow> response option \<times> 's world" where
  "p0_find db E req w =
     (let collection = getProp (query req) ''collection'';
          filter = getProp (query req) ''filter'';
          page = getProp (query req) ''page'';
          pageSize = getProp (query req) ''pageSize''
      in if \<not> truthy collection
         then (Some (errorJson 400 ''Missing collection param''), w)
         else let skip = findSkip E page pageSize; limit = findLimit E pageSize
              in tryCatch
                (await (p0_call db ''collection''
                          (FindToArray Undefined collection (orElse filter (Obj [])) skip limit) w)
                   (\<lambda>results w. (Inr (Some (json 200 results)), w))))"

definition p0_aggregate ::
  "(dbop \<Rightarrow> 's \<Rightarrow> (string + jsval) \<times> 's) option \<Rightarrow> 's env \<Rightarrow> request \<Rightarrow> 's world \<Rightarrow> response option \<times> 's world" where
  "p0_aggregate db E req w =
     (let collection = getProp (query req) ''collection'';
          pipeline = getProp (query req) ''pipeline''
      in if \<not> truthy collection \<or> \<not> truthy pipeline
         then (Some (errorJson 400 ''Missing collection or pipeline param''), w)
         else tryCatch
           (await (p0_call db ''collection'' (AggregateToArray Undefined collection pipeline) w)
              (\<lambda>results w. (Inr (Some (json 200 results)), w))))"

definition p0_insert ::
  "(dbop \<Rightarrow> 's \<Rightarrow> (string + jsval) \<times> 's) option \<Rightarrow> 's env \<Rightarrow> request \<Rightarrow> 's world \<Rightarrow> response option \<times> 's world" where
  "p0_insert db E req w =
     (let collection = getProp (body req) ''collection'';
          document = getProp (body req) ''document''
      in if \<not> truthy collection \<or> \<not> truthy document
         then (Some (errorJson 400 ''Missing collection or document in body''), w)
         else tryCatch
           (await (p0_call db ''collection'' (InsertOne Undefined collection document) w)
              (\<lambda>result w. (Inr (Some (json 201 result)), w))))"

definition p0_insertMany ::
  "(dbop \<Rightarrow> 's \<Rightarrow> (string + jsval) \<times> 's) option \<Rightarrow> 's env \<Rightarrow> request \<Rightarrow> 's world \<Rightarrow> response option \<times> 's world" where
  "p0_insertMany db E req w =
     (let collection = getProp (body req) ''collection'';
          documents = getProp (body req) ''documents''
      in if \<not> truthy collection \<or> \<not> isArray documents \<or> arrLength documents = 0
         then (Some (errorJson 400 ''Missing collection or documents in body''), w)
         else tryCatch
           (await (p0_call db ''collection'' (InsertMany Undefined collection documents) w)
              (\<lambda>result w. (Inr (Some (json 201 result)), w))))"

definition p0_findByIdAndUpdate ::
  "(dbop \<Rightarrow> 's \<Rightarrow> (string + jsval) \<times> 's) option \<Rightarrow> 's env \<Rightarrow> request \<Rightarrow> 's world \<Rightarrow> response option \<times> 's world" where
  "p0_findByIdAndUpdate db E req w =
     (let collection = getProp (body req) ''collection'';
          id = getProp (body req) ''id'';
          update = getProp (body req) ''update''
      in if \<not> truthy collection \<or> \<not> truthy id \<or> \<not> truthy update
         then (Some (errorJson 400 ''Missing collection, id or update in body''), w)
         else tryCatch
           (await (p0_call db ''collection''
                     (FindOneAndUpdate Undefined collection
                        (Obj [(''_id'', id)])
                        (Obj [(''$set'', update)])
                        (Obj [(''returnOriginal'', Bool True)])) w)
              (\<lambda>result w. (Inr (Some (json 200 result)), w))))"

definition p0_findByIdAndDelete ::
  "(dbop \<Rightarrow> 's \<Rightarrow> (string + jsval) \<times> 's) option \<Rightarrow> 's env \<Rightarrow> request \<Rightarrow> 's world \<Rightarrow> response option \<times> 's world" where
  "p0_findByIdAndDelete db E req w =
     (let collection = getProp (body req) ''collection'';
          id = getProp (body req) ''id''
      in if \<not> truthy collection \<or> \<not> truthy id
         then (Some (errorJson 400 ''Missing collection or id in body''), w)
         else tryCatch
           (await (p0_call db ''collection''
                     (FindOneAndDelete Undefined collection (Obj [(''_id'', id)])) w)
              (\<lambda>result w. (Inr (Some (json 200 result)), w))))"

definition p0_route ::
  "verb \<Rightarrow> string \<Rightarrow>
   ((dbop \<Rightarrow> 's \<Rightarrow> (string + jsval) \<times> 's) option \<Rightarrow> 's env \<Rightarrow> request \<Rightarrow> 's world \<Rightarrow> response option \<times> 's world) option" where
  "p0_route m p =
     (if m = GET \<and> p = ''/health'' then Some (\<lambda>db E req w. (Some (sendText healthMessage), w))
      else if m = POST \<and> p = ''/create'' then Some p0_create
      else if m = DELETE \<and> p = ''/delete'' then Some p0_delete
      else if m = GET \<and> p = ''/find'' then Some p0_find
      else if m = GET \<and> p = ''/aggregate'' then Some p0_aggregate
      else if m = POST \<and> p = ''/insert'' then Some p0_insert
      else if m = POST \<and> p = ''/insertMany'' then Some p0_insertMany
      else if m = PUT \<and> p = ''/findByIdAndUpdate'' then Some p0_findByIdAndUpdate
      else if m = DELETE \<and> p = ''/findByIdAndDelete'' then Some p0_findByIdAndDelete
      else None)"

text \<open>The authorization middleware of this variant calls \<open>token.replace\<close> without
  testing \<open>token\<close>: without the header it throws, and the framework answers for it.
  The middleware comes before every route, \<open>/health\<close> included.\<close>

definition p0_with ::
  "(dbop \<Rightarrow> 's \<Rightarrow> (string + jsval) \<times> 's) option \<Rightarrow> 's env \<Rightarrow> request \<Rightarrow> 's world \<Rightarrow> response option \<times> 's world" where
  "p0_with db E req w =
     (case authorization req of
        None \<Rightarrow> (Some defaultError, w)
      | Some token \<Rightarrow>
          if replaceFirst ''Bearer '' [] token \<in> set (allowedTokens E)
          then (case p0_route (verb req) (path req) of
                  None \<Rightarrow> (Some notFound, w)
                | Some handler \<Rightarrow> handler db E req w)
          else (Some (errorJson 401 ''Unauthorized''), w))"

definition p0 :: "'s env \<Rightarrow> request \<Rightarrow> 's world \<Rightarrow> response option \<times> 's world" where
  "p0 E req w = p0_with None E req w"

section \<open>A small in-memory client, for concrete runs\<close>

text \<open>One collection held as a list of documents; database and collection names are
  ignored. A filter matches a document that has each of the filter's properties with
  an equal value. A positive limit bounds the result, limit 0 means no limit.\<close>

fun matches :: "jsval \<Rightarrow> jsval \<Rightarrow> bool" where
  "matches (Obj kvs) doc = list_all (\<lambda>(k, v). getProp doc k = v) kvs"
| "matches f doc = True"

text \<open>\<open>$set\<close>: each property of the update is written into the document.\<close>

definition applySet :: "(string \<times> jsval) list \<Rightarrow> jsval \<Rightarrow> jsval" where
  "applySet u doc = Obj (foldl (\<lambda>acc (k, v). setProp acc k v) (ownProps doc) u)"

fun updateFirst :: "jsval \<Rightarrow> (jsval \<Rightarrow> jsval) \<Rightarrow> jsval list \<Rightarrow> jsval list" where
  "updateFirst f g [] = []"
| "updateFirst f g (d # ds) = (if matches f d then g d # ds else d # updateFirst f g ds)"

fun removeFirst :: "jsval \<Rightarrow> jsval list \<Rightarrow> jsval list" where
  "removeFirst f [] = []"
| "removeFirst f (d # ds) = (if matches f d then ds else d # removeFirst f ds)"

definition firstMatch :: "jsval \<Rightarrow> jsval list \<Rightarrow> jsval" where
  "firstMatch f ds = (case filter (matches f) ds of [] \<Rightarrow> Null | d # _ \<Rightarrow> d)"

definition withId :: "nat \<Rightarrow> jsval \<Rightarrow> jsval" where
  "withId n doc = Obj ((''_id'', ObjectId (showNat n)) # ownProps doc)"

text \<open>\<open>find(f).skip(a).limit(b).toArray()\<close> and \<open>findOneAndUpdate(f, u)\<close> of the
  in-memory client.\<close>

definition memFind :: "jsval \<Rightarrow> jsval \<Rightarrow> jsval \<Rightarrow> jsval list \<Rightarrow> string + jsval" where
  "memFind f skip limit s =
     (case (skip, limit) of
        (Num a, Num b) \<Rightarrow>
          if a < 0 then Inl ''skip must not be negative''
          else let found = drop (nat a) (filter (matches f) s)
               in Inr (Arr (if b = 0 then found else take (nat \<bar>b\<bar>) found))
      | _ \<Rightarrow> Inl ''skip and limit must be numbers'')"

definition memUpdate :: "jsval \<Rightarrow> jsval \<Rightarrow> jsval list \<Rightarrow> (string + jsval) \<times> jsval list" where
  "memUpdate f u s =
     (case u of
        Obj [(k, Obj changes)] \<Rightarrow>
          if k = ''$set''
          then (Inr (Obj [(''value'', firstMatch f s)]), updateFirst f (applySet changes) s)
          else (Inl ''unknown modifier'', s)
      | _ \<Rightarrow> (Inl ''update must use a modifier'', s))"

fun memClient :: "dbop \<Rightarrow> jsval list \<Rightarrow> (string + jsval) \<times> jsval list" where
  "memClient (ListCollections f opts) s = (Inr (Arr []), s)"
| "memClient (CreateCollection d c) s = (Inr (Obj []), s)"
| "memClient (CreateIndex d c i) s = (Inr (Str ''index''), s)"
| "memClient (CreateSearchIndex d c i) s = (Inr (Str ''searchIndex''), s)"
| "memClient (Drop d c) s = (Inr (Bool True), [])"
| "memClient (Count d c f) s = (Inr (Num (int (length (filter (matches f) s)))), s)"
| "memClient (FindToArray d c f skip limit) s = (memFind f skip limit s, s)"
| "memClient (AggregateToArray d c p) s = (Inr (Arr s), s)"
| "memClient (InsertOne d c doc) s =
     (Inr (Obj [(''acknowledged'', Bool True), (''insertedId'', ObjectId (showNat (length s)))]),
      s @ [withId (length s) doc])"
| "memClient (InsertMany d c docs) s =
     (if isArray docs
      then (Inr (Obj [(''acknowledged'', Bool True), (''insertedCount'', Num (int (arrLength docs)))]),
            s @ map (\<lambda>(n, doc). withId n doc)
                  (zip [length s ..< length s + arrLength docs] (map snd (ownProps docs))))
      else (Inl ''documents must be an array'', s))"
| "memClient (FindOneAndUpdate d c f u opts) s = memUpdate f u s"
| "memClient (FindOneAndDelete d c f) s = (Inr (Obj [(''value'', firstMatch f s)]), removeFirst f s)"

text \<open>A client whose every operation rejects with the same message.\<close>

definition failingClient :: "string \<Rightarrow> dbop \<Rightarrow> jsval list \<Rightarrow> (string + jsval) \<times> jsval list" where
  "failingClient m op s = (Inl m, s)"

text \<open>An environment for concrete runs: one allowed token, identifiers taken from
  strings, a fixed clock.\<close>

fun memObjectId :: "jsval \<Rightarrow> string + jsval" where
  "memObjectId (Str h) = Inr (ObjectId h)"
| "memObjectId (ObjectId h) = Inr (ObjectId h)"
| "memObjectId v = Inl ''input must be a 24 character hex string''"

definition memEnv :: "jsval list env" where
  "memEnv = \<lparr>allowedTokens = [''testtoken''], dbClient = memClient, newObjectId = memObjectId,
             now = Date 1000, toNumber = (\<lambda>v. NaN), toText = (\<lambda>v. []),
             forwardsRejections = True\<rparr>"

definition start :: "jsval list \<Rightarrow> jsval list world" where
  "start ds = \<lparr>dbState = ds, calls = []\<rparr>"

definition mkRequest :: "verb \<Rightarrow> string \<Rightarrow> string option \<Rightarrow> (string \<times> jsval) list \<Rightarrow> request" where
  "mkRequest m p a kvs = \<lparr>verb = m, path = p, authorization = a, body = Obj kvs, query = Obj kvs\<rparr>"

text \<open>The same environment with a client that has lost its connection, and a request
  to drop a collection (with the field names of all three variants).\<close>

definition failingEnv :: "jsval list env" where
  "failingEnv = memEnv\<lparr>dbClient := failingClient ''connection lost''\<rparr>"

definition deleteRequest :: request where
  "deleteRequest = mkRequest DELETE ''/delete'' (Some ''Bearer testtoken'')
     [(''dbName'', Str ''shop''), (''collectionName'', Str ''users''), (''collection'', Str ''users'')]"

text \<open>Requests that carry the allowed token and name their target (with the field
  names of all three variants), followed by the fields given.\<close>

definition target :: "(string \<times> jsval) list" where
  "target = [(''dbName'', Str ''shop''), (''collectionName'', Str ''users''), (''collection'', Str ''users'')]"

definition authed :: "verb \<Rightarrow> string \<Rightarrow> (string \<times> jsval) list \<Rightarrow> request" where
  "authed m p kvs = mkRequest m p (Some ''Bearer testtoken'') (target @ kvs)"



text \<open>A stored document, and requests to update and to delete it by its identifier.\<close>

definition david :: jsval where
  "david = Obj [(''_id'', ObjectId ''0''), (''name'', Str ''David''), (''age'', Num 40)]"

definition updateRequest :: request where
  "updateRequest = authed POST ''/findByIdAndUpdate''
     [(''id'', Str ''0''), (''update'', Obj [(''age'', Num 41)])]"

definition deleteByIdRequest :: request where
  "deleteByIdRequest = authed DELETE ''/findByIdAndDelete'' [(''id'', Str ''0'')]"



text \<open>What \<open>/create\<close>, \<open>/insert\<close> and \<open>/insertMany\<close> rely on in the client: that an
  operation succeeds in every state, and that the results of the inserts carry the
  new identifier and the number of documents they were given.\<close>

definition succeeds :: "(dbop \<Rightarrow> 's \<Rightarrow> (string + jsval) \<times> 's) \<Rightarrow> dbop \<Rightarrow> bool" where
  "succeeds c op = (\<forall>s. \<exists>v s'. c op s = (Inr v, s'))"

definition reportsInserted :: "(dbop \<Rightarrow> 's \<Rightarrow> (string + jsval) \<times> 's) \<Rightarrow> bool" where
  "reportsInserted c =
     ((\<forall>d cn doc s v s'. c (InsertOne d cn doc) s = (Inr v, s') \<longrightarrow>
          getProp v ''insertedId'' \<noteq> Undefined)
      \<and> (\<forall>d cn docs s v s'. c (InsertMany d cn docs) s = (Inr v, s') \<longrightarrow>
          getProp v ''insertedCount'' = Num (int (arrLength docs))))"

text \<open>The same update as the variant with one database takes it (\<open>PUT\<close>).\<close>

definition putRequest :: request where
  "putRequest = authed PUT ''/findByIdAndUpdate''
     [(''id'', Str ''0''), (''update'', Obj [(''age'', Num 41)])]"

text \<open>The environment with the lost connection under a framework that does not hand
  the rejection of a handler on.\<close>

definition droppingEnv :: "jsval list env" where
  "droppingEnv = failingEnv\<lparr>forwardsRejections := False\<rparr>"

section \<open>Which responses the handlers send\<close>

lemmas handler_defs =
  app_create_def app_delete_def app_find_def app_aggregate_def app_insert_def
  app_insertMany_def app_findByIdAndUpdate_def app_findByIdAndDelete_def
  p1_find_def p1_insert_def p1_findByIdAndUpdate_def p1_findByIdAndPush_def

lemma app_route_cases:
  "app_route m p = Some h \<Longrightarrow>
     h = app_create \<or> h = app_delete \<or> h = app_find \<or> h = app_aggregate \<or> h = app_insert \<or>
     h = app_insertMany \<or> h = app_findByIdAndUpdate \<or> h = app_findByIdAndDelete"
  by (auto simp: app_route_def split: if_splits)

lemma p1_route_cases:
  "p1_route m p = Some h \<Longrightarrow>
     h = app_create \<or> h = app_delete \<or> h = p1_find \<or> h = app_aggregate \<or> h = p1_insert \<or>
     h = app_insertMany \<or> h = p1_findByIdAndUpdate \<or> h = p1_findByIdAndPush \<or>
     h = app_findByIdAndDelete"
  by (auto simp: p1_route_def split: if_splits)




section \<open>C1: when a request is answered 401\<close>




section \<open>C3: the health check and authorization\<close>

text \<open>C3 says that \<open>GET /health\<close> without an Authorization header, or with a token
  that is not allowed, is rejected with 401. The code at these two requests:
  src/app.js and the variant with timestamps answer both with 200 and the running
  message; the variant with one database answers the request without a header
  with the framework's 500 and only the one with a wrong token with 401.\<close>

theorem health_check_not_rejected:
  "fst (app memEnv (mkRequest GET ''/health'' None []) (start [])) = Some (sendText healthMessage)
   \<and> fst (app memEnv (mkRequest GET ''/health'' (Some ''Bearer invalidtoken'') []) (start []))
       = Some (sendText healthMessage)
   \<and> fst (p1 memEnv (mkRequest GET ''/health'' None []) (start [])) = Some (sendText healthMessage)
   \<and> fst (p1 memEnv (mkRequest GET ''/health'' (Some ''Bearer invalidtoken'') []) (start []))
       = Some (sendText healthMessage)
   \<and> fst (p0 memEnv (mkRequest GET ''/health'' None []) (start [])) = Some defaultError
   \<and> status defaultError = 500
   \<and> fst (p0 memEnv (mkRequest GET ''/health'' (Some ''Bearer invalidtoken'') []) (start []))
       = Some (errorJson 401 ''Unauthorized'')"
  by (simp add: app_def p1_def p0_def p0_with_def mkRequest_def memEnv_def defaultError_def)

section \<open>A rejected operation ends the handler\<close>

lemma handler_failure:
  assumes "h = app_create \<or> h = app_delete \<or> h = app_find \<or> h = app_aggregate \<or> h = app_insert \<or>
     h = app_insertMany \<or> h = app_findByIdAndUpdate \<or> h = app_findByIdAndDelete \<or>
     h = p1_find \<or> h = p1_insert \<or> h = p1_findByIdAndUpdate \<or> h = p1_findByIdAndPush"
    and "calls w = []" and "h E req w = (r, w')" and "(op, Inl m) \<in> set (calls w')"
  shows "r = Inl m"
  using assms
  by (auto simp: handler_defs await_def call_def attempt_def Let_def coerceFilterId_def
      split: prod.splits sum.splits if_splits)

lemmas p0_handler_defs =
  p0_create_def p0_delete_def p0_find_def p0_aggregate_def p0_insert_def p0_insertMany_def
  p0_findByIdAndUpdate_def p0_findByIdAndDelete_def

lemma p0_route_cases:
  "p0_route m p = Some h \<Longrightarrow>
     h = (\<lambda>db E req w. (Some (sendText healthMessage), w)) \<or>
     h = p0_create \<or> h = p0_delete \<or> h = p0_find \<or> h = p0_aggregate \<or> h = p0_insert \<or>
     h = p0_insertMany \<or> h = p0_findByIdAndUpdate \<or> h = p0_findByIdAndDelete"
  by (auto simp: p0_route_def split: if_splits)

lemma p0_handler_failure:
  assumes "h = (\<lambda>db E req w. (Some (sendText healthMessage), w)) \<or>
     h = p0_create \<or> h = p0_delete \<or> h = p0_find \<or> h = p0_aggregate \<or> h = p0_insert \<or>
     h = p0_insertMany \<or> h = p0_findByIdAndUpdate \<or> h = p0_findByIdAndDelete"
    and "calls w = []" and "(op, Inl m) \<in> set (calls (snd (h db E req w)))"
  shows "fst (h db E req w) = Some (errorJson 500 m)"
  using assms
  by (auto simp: p0_handler_defs tryCatch_def await_def p0_call_def attempt_def Let_def
      split: prod.splits sum.splits if_splits option.splits)

lemma p1_failure:
  fixes E :: "'s env"
  assumes "calls w = []" and "(op, Inl m) \<in> set (calls (snd (p1 E req w)))"
  shows "fst (p1 E req w) = Some (errorJson 500 m)"
proof (cases "p1_route (verb req) (path req)
    :: ('s env \<Rightarrow> request \<Rightarrow> 's world \<Rightarrow> ('s, response) promise) option")
  case None
  from assms(2) have False
    unfolding p1_def None using assms(1) by (auto split: if_splits)
  then show ?thesis ..
next
  case (Some h)
  obtain r w' where hr: "h E req w = (r, w')" by (cases "h E req w")
  from assms Some hr have run: "p1 E req w = asyncHandler (r, w')"
    by (auto simp: p1_def split: if_splits)
  have w': "snd (asyncHandler (r, w')) = w'"
    by (simp add: asyncHandler_def split: sum.splits)
  from assms(2) run w' have "(op, Inl m) \<in> set (calls w')" by simp
  with handler_failure [of h w E req r w' op m] p1_route_cases [OF Some] assms(1) hr
  have "r = Inl m" by blast
  with run show ?thesis by (simp add: asyncHandler_def errorMiddleware_def)
qed

lemma app_failure:
  fixes E :: "'s env"
  assumes "calls w = []" and "(op, Inl m) \<in> set (calls (snd (app E req w)))"
  shows "fst (app E req w) = (if forwardsRejections E then Some (errorJson 500 m) else None)"
proof (cases "app_route (verb req) (path req)
    :: ('s env \<Rightarrow> request \<Rightarrow> 's world \<Rightarrow> ('s, response) promise) option")
  case None
  from assms(2) have False
    unfolding app_def None using assms(1) by (auto split: if_splits)
  then show ?thesis ..
next
  case (Some h)
  obtain r w' where hr: "h E req w = (r, w')" by (cases "h E req w")
  from assms Some hr have run: "app E req w = app_settle E (r, w')"
    by (auto simp: app_def split: if_splits)
  have w': "snd (app_settle E (r, w')) = w'"
    by (simp add: app_settle_def split: sum.splits)
  from assms(2) run w' have "(op, Inl m) \<in> set (calls w')" by simp
  with handler_failure [of h w E req r w' op m] app_route_cases [OF Some] assms(1) hr
  have "r = Inl m" by blast
  with run show ?thesis by (simp add: app_settle_def errorMiddleware_def)
qed

lemma p0_failure:
  fixes E :: "'s env"
  assumes "calls w = []" and "(op, Inl m) \<in> set (calls (snd (p0_with db E req w)))"
  shows "fst (p0_with db E req w) = Some (errorJson 500 m)"
proof (cases "p0_route (verb req) (path req)
    :: ((dbop \<Rightarrow> 's \<Rightarrow> (string + jsval) \<times> 's) option \<Rightarrow> 's env \<Rightarrow> request \<Rightarrow> 's world
        \<Rightarrow> response option \<times> 's world) option")
  case None
  from assms(2) have False
    unfolding p0_with_def None using assms(1) by (auto split: if_splits option.splits)
  then show ?thesis ..
next
  case (Some h)
  from assms Some have run: "p0_with db E req w = h db E req w"
    by (auto simp: p0_with_def split: if_splits option.splits)
  with p0_handler_failure [of h w op m db E req] p0_route_cases [OF Some] assms
  show ?thesis by simp
qed

section \<open>A failing database operation is answered 500\<close>

text \<open>Whenever an operation invoked while a request is handled is rejected by the
  database client with message \<open>m\<close>, the response has status 500 and its body is
  \<open>{error: m}\<close>, the message unchanged: in the variant with timestamps through
  \<open>asyncHandler\<close> and the error middleware, in the variant with one database through
  the \<open>catch\<close> of each handler (for any client handle its \<open>db\<close> may hold). The handlers
  of src/app.js catch nothing themselves: there the error middleware answers when
  the framework hands it the rejected promise of the handler.\<close>

theorem database_failure_500:
  assumes "calls w = []"
  shows "((op, Inl m) \<in> set (calls (snd (p1 E req w))) \<longrightarrow>
            fst (p1 E req w) = Some (errorJson 500 m))
       \<and> (forwardsRejections E \<and> (op, Inl m) \<in> set (calls (snd (app E req w))) \<longrightarrow>
            fst (app E req w) = Some (errorJson 500 m))
       \<and> ((op, Inl m) \<in> set (calls (snd (p0_with db E req w))) \<longrightarrow>
            fst (p0_with db E req w) = Some (errorJson 500 m))"
  using assms p1_failure [of w op m E req] app_failure [of w op m E req]
    p0_failure [of w op m db E req]
  by simp

text \<open>A run with the client that has lost its connection.\<close>

theorem database_failure_500_witness:
  "calls (start []) = []
   \<and> (Drop (Str ''shop'') (Str ''users''), Inl ''connection lost'')
        \<in> set (calls (snd (p1 failingEnv deleteRequest (start []))))
   \<and> fst (p1 failingEnv deleteRequest (start [])) = Some (errorJson 500 ''connection lost'')
   \<and> forwardsRejections failingEnv
   \<and> (Drop (Str ''shop'') (Str ''users''), Inl ''connection lost'')
        \<in> set (calls (snd (app failingEnv deleteRequest (start []))))
   \<and> fst (app failingEnv deleteRequest (start [])) = Some (errorJson 500 ''connection lost'')
   \<and> (Drop Undefined (Str ''users''), Inl ''connection lost'')
        \<in> set (calls (snd (p0_with (Some (failingClient ''connection lost'')) failingEnv deleteRequest (start []))))
   \<and> fst (p0_with (Some (failingClient ''connection lost'')) failingEnv deleteRequest (start []))
        = Some (errorJson 500 ''connection lost'')"
proof -
  have c: "calls (start []) = []" by (simp add: start_def)
  have f: "forwardsRejections failingEnv" by (simp add: failingEnv_def memEnv_def)
  have a: "authorized failingEnv deleteRequest" "\<not> missingTarget deleteRequest"
    by (simp_all add: authorized_def missingTarget_def failingEnv_def memEnv_def deleteRequest_def mkRequest_def)
  have 1: "(Drop (Str ''shop'') (Str ''users''), Inl ''connection lost'')
        \<in> set (calls (snd (p1 failingEnv deleteRequest (start []))))"
    using a by (simp add: p1_def p1_route_def app_delete_def asyncHandler_def await_def call_def
        failingEnv_def memEnv_def failingClient_def deleteRequest_def mkRequest_def start_def)
  have 2: "(Drop (Str ''shop'') (Str ''users''), Inl ''connection lost'')
        \<in> set (calls (snd (app failingEnv deleteRequest (start []))))"
    using a by (simp add: app_def app_route_def app_delete_def app_settle_def await_def call_def
        failingEnv_def memEnv_def failingClient_def deleteRequest_def mkRequest_def start_def)
  have 3: "(Drop Undefined (Str ''users''), Inl ''connection lost'')
        \<in> set (calls (snd (p0_with (Some (failingClient ''connection lost'')) failingEnv deleteRequest (start []))))"
    by (simp add: p0_with_def p0_route_def p0_delete_def tryCatch_def await_def p0_call_def
        failingEnv_def memEnv_def failingClient_def deleteRequest_def mkRequest_def start_def)
  from database_failure_500 [OF c, of _ _ failingEnv deleteRequest] c f 1 2 3
  show ?thesis by blast
qed

text \<open>Under a framework that does not hand a handler's rejection on, the same request
  to src/app.js gets no response at all.\<close>

lemma app_rejection_unanswered:
  assumes "calls w = []" and "\<not> forwardsRejections E"
    and "(op, Inl m) \<in> set (calls (snd (app E req w)))"
  shows "fst (app E req w) = None"
  using app_failure [OF assms(1) assms(3)] assms(2) by simp

section \<open>C2: a failing database operation in src/app.js\<close>

text \<open>C2 says that every request whose database operation fails is answered 500
  with the message of the error. The code at a request to drop a collection while
  the client has lost its connection: the handler of src/app.js is a bare \<open>async\<close>
  function, without \<open>asyncHandler\<close> and without \<open>try\<close>, so its rejection reaches the
  error middleware only through the framework; where the framework does not hand it
  on, the operation has failed and the request has no response. The variant with
  timestamps and the variant with one database (given a client handle) answer the
  same request with 500 and the message.\<close>

theorem rejection_unanswered_in_app:
  "map fst (calls (snd (app droppingEnv deleteRequest (start []))))
     = [Drop (Str ''shop'') (Str ''users'')]
   \<and> map snd (calls (snd (app droppingEnv deleteRequest (start []))))
     = [Inl ''connection lost'']
   \<and> fst (app droppingEnv deleteRequest (start [])) = None
   \<and> fst (p1 droppingEnv deleteRequest (start [])) = Some (errorJson 500 ''connection lost'')
   \<and> fst (p0_with (Some (failingClient ''connection lost'')) droppingEnv deleteRequest (start []))
     = Some (errorJson 500 ''connection lost'')
   \<and> fst (app failingEnv deleteRequest (start [])) = Some (errorJson 500 ''connection lost'')"
  by (simp add: app_def app_route_def p1_def p1_route_def app_delete_def app_settle_def
      asyncHandler_def errorMiddleware_def await_def call_def Let_def
      p0_with_def p0_route_def p0_delete_def tryCatch_def p0_call_def
      droppingEnv_def failingEnv_def memEnv_def failingClient_def deleteRequest_def mkRequest_def
      start_def authorized_def missingTarget_def)

section \<open>C4: a missing parameter of the operation\<close>



text \<open>Runs: one request for each of the five operations.\<close>

lemmas run_defs =
  authed_def target_def mkRequest_def memEnv_def start_def authorized_def missingTarget_def


section \<open>What \<open>/find\<close> asks of the client\<close>

lemma call_log:
  "call E op w = (r, w') \<Longrightarrow>
     calls w' = calls w @ [(op, r)] \<and> (\<exists>s'. dbClient E op (dbState w) = (r, s'))"
  by (auto simp: call_def split: prod.splits)




lemma find_handler_of:
  "authorized E req \<Longrightarrow> \<not> missingTarget req \<Longrightarrow> verb req = POST \<Longrightarrow> path req = ''/find'' \<Longrightarrow>
     app E req w = app_settle E (app_find E req w) \<and> p1 E req w = asyncHandler (p1_find E req w)"
  by (simp add: app_def p1_def app_route_def p1_route_def)



section \<open>C5: pagination of \<open>/find\<close>\<close>





section \<open>Which handler answers, and how many operations it invokes\<close>










section \<open>C6: operations per request\<close>




section \<open>The operations of the handlers that take an identifier\<close>

lemma snd_settle: "snd (app_settle E x) = snd x" "snd (asyncHandler x) = snd x"
  by (auto simp: app_settle_def asyncHandler_def split: prod.splits sum.splits)

lemma app_update_ops:
  assumes "truthy (getProp (body req) ''id'')" and "truthy (getProp (body req) ''update'')"
  shows "(newObjectId E (getProp (body req) ''id'') = Inr oid \<longrightarrow>
           map fst (calls (snd (app_findByIdAndUpdate E req w))) = map fst (calls w) @
             [FindOneAndUpdate (getProp (body req) ''dbName'') (getProp (body req) ''collectionName'')
                (Obj [(''_id'', oid)]) (Obj [(''$set'', getProp (body req) ''update'')])
                (Obj [(''returnNewDocument'', Bool True)])]
         \<and> map fst (calls (snd (p1_findByIdAndUpdate E req w))) = map fst (calls w) @
             [FindOneAndUpdate (getProp (body req) ''dbName'') (getProp (body req) ''collectionName'')
                (Obj [(''_id'', oid)]) (touched (getProp (body req) ''update'') (now E))
                (Obj [(''returnNewDocument'', Bool True)])])
       \<and> (newObjectId E (getProp (body req) ''id'') = Inl m \<longrightarrow>
           snd (app_findByIdAndUpdate E req w) = w \<and> snd (p1_findByIdAndUpdate E req w) = w)"
  using assms
  by (auto simp: app_findByIdAndUpdate_def p1_findByIdAndUpdate_def await_def attempt_def call_def Let_def
      split: prod.splits sum.splits)

lemma app_delete_ops:
  assumes "truthy (getProp (body req) ''id'')"
  shows "(newObjectId E (getProp (body req) ''id'') = Inr oid \<longrightarrow>
           map fst (calls (snd (app_findByIdAndDelete E req w))) = map fst (calls w) @
             [FindOneAndDelete (getProp (body req) ''dbName'') (getProp (body req) ''collectionName'')
                (Obj [(''_id'', oid)])])
       \<and> (newObjectId E (getProp (body req) ''id'') = Inl m \<longrightarrow>
           snd (app_findByIdAndDelete E req w) = w)"
  using assms
  by (auto simp: app_findByIdAndDelete_def await_def attempt_def call_def Let_def
      split: prod.splits sum.splits)

lemma p1_find_ops:
  assumes "truthy (getProp (body req) ''filter'')"
    and "truthy (getProp (getProp (body req) ''filter'') ''_id'')"
  shows "(newObjectId E (getProp (getProp (body req) ''filter'') ''_id'') = Inr oid \<longrightarrow>
           (\<exists>rest. map fst (calls (snd (p1_find E req w))) = map fst (calls w) @
               Count (getProp (body req) ''dbName'') (getProp (body req) ''collectionName'')
                 (Obj (setProp (ownProps (getProp (body req) ''filter'')) ''_id'' oid)) # rest
             \<and> (rest = [] \<or> rest =
                 [FindToArray (getProp (body req) ''dbName'') (getProp (body req) ''collectionName'')
                    (Obj (setProp (ownProps (getProp (body req) ''filter'')) ''_id'' oid))
                    (findSkip E (getProp (body req) ''page'') (getProp (body req) ''pageSize''))
                    (findLimit E (getProp (body req) ''pageSize''))])))
       \<and> (newObjectId E (getProp (getProp (body req) ''filter'') ''_id'') = Inl m \<longrightarrow>
           snd (p1_find E req w) = w)"
  using assms
  by (auto simp: p1_find_def coerceFilterId_def await_def attempt_def call_def Let_def orElse_def
      split: prod.splits sum.splits)

text \<open>The variant with one database never reaches the client: its \<open>db\<close> is
  \<open>undefined\<close>, so every handler throws before it invokes an operation.\<close>

lemma p0_never_calls: "calls (snd (p0 E req w)) = calls w \<and> dbState (snd (p0 E req w)) = dbState w"
proof -
  have "\<And>h. p0_route (verb req) (path req) = Some h \<Longrightarrow> snd (h None E req w) = w"
  proof -
    fix h :: "(dbop \<Rightarrow> 'a \<Rightarrow> (string + jsval) \<times> 'a) option \<Rightarrow> 'a env \<Rightarrow> request \<Rightarrow> 'a world
        \<Rightarrow> response option \<times> 'a world"
    assume "p0_route (verb req) (path req) = Some h"
    from p0_route_cases [OF this] show "snd (h None E req w) = w"
      by (auto simp: p0_handler_defs tryCatch_def await_def p0_call_def Let_def)
  qed
  then have "snd (p0 E req w) = w"
    by (auto simp: p0_def p0_with_def split: option.splits)
  then show ?thesis by simp
qed


lemma update_handler_of:
  "authorized E req \<Longrightarrow> \<not> missingTarget req \<Longrightarrow> verb req = POST \<Longrightarrow>
     path req = ''/findByIdAndUpdate'' \<Longrightarrow>
     app E req w = app_settle E (app_findByIdAndUpdate E req w)
     \<and> p1 E req w = asyncHandler (p1_findByIdAndUpdate E req w)"
  by (simp add: app_def p1_def app_route_def p1_route_def)

lemma delete_handler_of:
  "authorized E req \<Longrightarrow> \<not> missingTarget req \<Longrightarrow> verb req = DELETE \<Longrightarrow>
     path req = ''/findByIdAndDelete'' \<Longrightarrow>
     app E req w = app_settle E (app_findByIdAndDelete E req w)
     \<and> p1 E req w = asyncHandler (app_findByIdAndDelete E req w)"
  by (simp add: app_def p1_def app_route_def p1_route_def)

section \<open>The identifier becomes a native identifier\<close>

text \<open>On \<open>/findByIdAndUpdate\<close> and \<open>/findByIdAndDelete\<close> of src/app.js and of the
  variant with timestamps, the one operation invoked has the filter \<open>{_id: oid}\<close>,
  where \<open>oid\<close> is what \<open>new ObjectId(id)\<close> made of the identifier in the body; when the
  constructor throws, nothing is invoked. In the variant with timestamps \<open>/find\<close>
  replaces a truthy \<open>_id\<close> of its filter by its native identifier in the same way
  before it counts and finds. The variant with one database never invokes an
  operation.\<close>

theorem identifier_coerced:
  fixes E :: "'s env"
  assumes "authorized E req" and "\<not> missingTarget req"
  shows
   "(verb req = POST \<and> path req = ''/findByIdAndUpdate''
       \<and> truthy (getProp (body req) ''id'') \<and> truthy (getProp (body req) ''update'') \<longrightarrow>
       (\<forall>oid. newObjectId E (getProp (body req) ''id'') = Inr oid \<longrightarrow>
           map fst (calls (snd (app E req w))) = map fst (calls w) @
             [FindOneAndUpdate (getProp (body req) ''dbName'') (getProp (body req) ''collectionName'')
                (Obj [(''_id'', oid)]) (Obj [(''$set'', getProp (body req) ''update'')])
                (Obj [(''returnNewDocument'', Bool True)])]
         \<and> map fst (calls (snd (p1 E req w))) = map fst (calls w) @
             [FindOneAndUpdate (getProp (body req) ''dbName'') (getProp (body req) ''collectionName'')
                (Obj [(''_id'', oid)]) (touched (getProp (body req) ''update'') (now E))
                (Obj [(''returnNewDocument'', Bool True)])])
     \<and> (\<forall>m. newObjectId E (getProp (body req) ''id'') = Inl m \<longrightarrow>
           snd (app E req w) = w \<and> snd (p1 E req w) = w))
  \<and> (verb req = DELETE \<and> path req = ''/findByIdAndDelete''
       \<and> truthy (getProp (body req) ''id'') \<longrightarrow>
       (\<forall>oid. newObjectId E (getProp (body req) ''id'') = Inr oid \<longrightarrow>
           map fst (calls (snd (app E req w))) = map fst (calls w) @
             [FindOneAndDelete (getProp (body req) ''dbName'') (getProp (body req) ''collectionName'')
                (Obj [(''_id'', oid)])]
         \<and> map fst (calls (snd (p1 E req w))) = map fst (calls w) @
             [FindOneAndDelete (getProp (body req) ''dbName'') (getProp (body req) ''collectionName'')
                (Obj [(''_id'', oid)])])
     \<and> (\<forall>m. newObjectId E (getProp (body req) ''id'') = Inl m \<longrightarrow>
           snd (app E req w) = w \<and> snd (p1 E req w) = w))
  \<and> (verb req = POST \<and> path req = ''/find''
       \<and> truthy (getProp (body req) ''filter'')
       \<and> truthy (getProp (getProp (body req) ''filter'') ''_id'') \<longrightarrow>
       (\<forall>oid. newObjectId E (getProp (getProp (body req) ''filter'') ''_id'') = Inr oid \<longrightarrow>
           (\<exists>rest. map fst (calls (snd (p1 E req w))) = map fst (calls w) @
               Count (getProp (body req) ''dbName'') (getProp (body req) ''collectionName'')
                 (Obj (setProp (ownProps (getProp (body req) ''filter'')) ''_id'' oid)) # rest
             \<and> (rest = [] \<or> rest =
                 [FindToArray (getProp (body req) ''dbName'') (getProp (body req) ''collectionName'')
                    (Obj (setProp (ownProps (getProp (body req) ''filter'')) ''_id'' oid))
                    (findSkip E (getProp (body req) ''page'') (getProp (body req) ''pageSize''))
                    (findLimit E (getProp (body req) ''pageSize''))])))
     \<and> (\<forall>m. newObjectId E (getProp (getProp (body req) ''filter'') ''_id'') = Inl m \<longrightarrow>
           snd (p1 E req w) = w))
  \<and> calls (snd (p0 E req w)) = calls w"
proof -
  have 1: "verb req = POST \<and> path req = ''/findByIdAndUpdate''
       \<and> truthy (getProp (body req) ''id'') \<and> truthy (getProp (body req) ''update'') \<longrightarrow>
       (\<forall>oid. newObjectId E (getProp (body req) ''id'') = Inr oid \<longrightarrow>
           map fst (calls (snd (app E req w))) = map fst (calls w) @
             [FindOneAndUpdate (getProp (body req) ''dbName'') (getProp (body req) ''collectionName'')
                (Obj [(''_id'', oid)]) (Obj [(''$set'', getProp (body req) ''update'')])
                (Obj [(''returnNewDocument'', Bool True)])]
         \<and> map fst (calls (snd (p1 E req w))) = map fst (calls w) @
             [FindOneAndUpdate (getProp (body req) ''dbName'') (getProp (body req) ''collectionName'')
                (Obj [(''_id'', oid)]) (touched (getProp (body req) ''update'') (now E))
                (Obj [(''returnNewDocument'', Bool True)])])
     \<and> (\<forall>m. newObjectId E (getProp (body req) ''id'') = Inl m \<longrightarrow>
           snd (app E req w) = w \<and> snd (p1 E req w) = w)"
    using update_handler_of [OF assms, of w] app_update_ops [of req E _ w]
    by (simp add: snd_settle)
  have 2: "verb req = DELETE \<and> path req = ''/findByIdAndDelete''
       \<and> truthy (getProp (body req) ''id'') \<longrightarrow>
       (\<forall>oid. newObjectId E (getProp (body req) ''id'') = Inr oid \<longrightarrow>
           map fst (calls (snd (app E req w))) = map fst (calls w) @
             [FindOneAndDelete (getProp (body req) ''dbName'') (getProp (body req) ''collectionName'')
                (Obj [(''_id'', oid)])]
         \<and> map fst (calls (snd (p1 E req w))) = map fst (calls w) @
             [FindOneAndDelete (getProp (body req) ''dbName'') (getProp (body req) ''collectionName'')
                (Obj [(''_id'', oid)])])
     \<and> (\<forall>m. newObjectId E (getProp (body req) ''id'') = Inl m \<longrightarrow>
           snd (app E req w) = w \<and> snd (p1 E req w) = w)"
    using delete_handler_of [OF assms, of w] app_delete_ops [of req E _ w]
    by (simp add: snd_settle)
  have 3: "verb req = POST \<and> path req = ''/find''
       \<and> truthy (getProp (body req) ''filter'')
       \<and> truthy (getProp (getProp (body req) ''filter'') ''_id'') \<longrightarrow>
       (\<forall>oid. newObjectId E (getProp (getProp (body req) ''filter'') ''_id'') = Inr oid \<longrightarrow>
           (\<exists>rest. map fst (calls (snd (p1 E req w))) = map fst (calls w) @
               Count (getProp (body req) ''dbName'') (getProp (body req) ''collectionName'')
                 (Obj (setProp (ownProps (getProp (body req) ''filter'')) ''_id'' oid)) # rest
             \<and> (rest = [] \<or> rest =
                 [FindToArray (getProp (body req) ''dbName'') (getProp (body req) ''collectionName'')
                    (Obj (setProp (ownProps (getProp (body req) ''filter'')) ''_id'' oid))
                    (findSkip E (getProp (body req) ''page'') (getProp (body req) ''pageSize''))
                    (findLimit E (getProp (body req) ''pageSize''))])))
     \<and> (\<forall>m. newObjectId E (getProp (getProp (body req) ''filter'') ''_id'') = Inl m \<longrightarrow>
           snd (p1 E req w) = w)"
    using find_handler_of [OF assms, of w] p1_find_ops [of req E _ w]
    by (simp add: snd_settle)
  from 1 2 3 p0_never_calls [of E req w] show ?thesis by blast
qed


text \<open>Runs: an update through src/app.js and a deletion through the variant with
  timestamps, both of the document with identifier 0.\<close>

theorem identifier_coerced_witness:
  "authorized memEnv updateRequest \<and> \<not> missingTarget updateRequest
   \<and> newObjectId memEnv (getProp (body updateRequest) ''id'') = Inr (ObjectId ''0'')
   \<and> map fst (calls (snd (app memEnv updateRequest (start [david]))))
       = [FindOneAndUpdate (Str ''shop'') (Str ''users'') (Obj [(''_id'', ObjectId ''0'')])
            (Obj [(''$set'', Obj [(''age'', Num 41)])]) (Obj [(''returnNewDocument'', Bool True)])]
   \<and> authorized memEnv deleteByIdRequest \<and> \<not> missingTarget deleteByIdRequest
   \<and> map fst (calls (snd (p1 memEnv deleteByIdRequest (start [david]))))
       = [FindOneAndDelete (Str ''shop'') (Str ''users'') (Obj [(''_id'', ObjectId ''0'')])]
   \<and> dbState (snd (p1 memEnv deleteByIdRequest (start [david]))) = []"
proof -
  have a: "authorized memEnv updateRequest" and t: "\<not> missingTarget updateRequest"
    and a': "authorized memEnv deleteByIdRequest" and t': "\<not> missingTarget deleteByIdRequest"
    by (simp_all add: updateRequest_def deleteByIdRequest_def run_defs)
  have u: "verb updateRequest = POST" "path updateRequest = ''/findByIdAndUpdate''"
    "getProp (body updateRequest) ''id'' = Str ''0''"
    "getProp (body updateRequest) ''update'' = Obj [(''age'', Num 41)]"
    "getProp (body updateRequest) ''dbName'' = Str ''shop''"
    "getProp (body updateRequest) ''collectionName'' = Str ''users''"
    by (simp_all add: updateRequest_def run_defs)
  have d: "verb deleteByIdRequest = DELETE" "path deleteByIdRequest = ''/findByIdAndDelete''"
    "getProp (body deleteByIdRequest) ''id'' = Str ''0''"
    "getProp (body deleteByIdRequest) ''dbName'' = Str ''shop''"
    "getProp (body deleteByIdRequest) ''collectionName'' = Str ''users''"
    by (simp_all add: deleteByIdRequest_def run_defs)
  have o: "newObjectId memEnv (Str ''0'') = Inr (ObjectId ''0'')" by (simp add: memEnv_def)
  have 1: "map fst (calls (snd (app memEnv updateRequest (start [david]))))
       = [FindOneAndUpdate (Str ''shop'') (Str ''users'') (Obj [(''_id'', ObjectId ''0'')])
            (Obj [(''$set'', Obj [(''age'', Num 41)])]) (Obj [(''returnNewDocument'', Bool True)])]"
    using identifier_coerced [OF a t, of "start [david]"] u o by (simp add: start_def)
  have 2: "map fst (calls (snd (p1 memEnv deleteByIdRequest (start [david]))))
       = [FindOneAndDelete (Str ''shop'') (Str ''users'') (Obj [(''_id'', ObjectId ''0'')])]"
    using identifier_coerced [OF a' t', of "start [david]"] d o by (simp add: start_def)
  have 3: "dbState (snd (p1 memEnv deleteByIdRequest (start [david]))) = []"
    using a' t' d
    by (simp add: p1_def p1_route_def app_findByIdAndDelete_def asyncHandler_def await_def
        attempt_def call_def Let_def memEnv_def start_def david_def firstMatch_def)
  from a t a' t' u o 1 2 3 show ?thesis by simp
qed

section \<open>Timestamps\<close>

lemma map_of_setProp: "map_of (setProp kvs k v) = (map_of kvs)(k \<mapsto> v)"
  by (induction kvs) auto

lemma showNat_0: "showNat 0 = ''0''"
  by code_simp

lemma stamped_fields:
  "getProp (stamped doc t) ''createdAt'' = t \<and> getProp (stamped doc t) ''updatedAt'' = t
   \<and> (\<forall>k. k \<noteq> ''createdAt'' \<and> k \<noteq> ''updatedAt'' \<longrightarrow>
         getProp (stamped doc t) k = getProp (Obj (ownProps doc)) k)"
  unfolding stamped_def by (simp add: map_of_setProp)

lemma touched_fields:
  "\<exists>u. touched update t = Obj [(''$set'', u)] \<and> getProp u ''updatedAt'' = t
     \<and> (\<forall>k. k \<noteq> ''updatedAt'' \<longrightarrow> getProp u k = getProp (Obj (ownProps update)) k)"
  unfolding touched_def by (simp add: map_of_setProp)

lemma p1_insert_ops:
  assumes "truthy (getProp (body req) ''document'')"
  shows "map fst (calls (snd (p1_insert E req w))) = map fst (calls w) @
     [InsertOne (getProp (body req) ''dbName'') (getProp (body req) ''collectionName'')
        (stamped (getProp (body req) ''document'') (now E))]"
  using assms
  by (auto simp: p1_insert_def await_def call_def Let_def split: prod.splits sum.splits)

lemma p1_insert_handler_of:
  "authorized E req \<Longrightarrow> \<not> missingTarget req \<Longrightarrow> verb req = POST \<Longrightarrow> path req = ''/insert'' \<Longrightarrow>
     p1 E req w = asyncHandler (p1_insert E req w)"
  by (simp add: p1_def p1_route_def)

section \<open>C9: timestamps on insert and on update\<close>

text \<open>C9: in the variant with timestamps, \<open>POST /insert\<close> with a document hands to
  \<open>insertOne\<close>, as its only operation, the document with \<open>createdAt\<close> and \<open>updatedAt\<close>
  both set to the one time read for the request; every other field of the document
  is in the inserted one with its value unchanged. \<open>POST /findByIdAndUpdate\<close> hands
  to \<open>findOneAndUpdate\<close> the modifier \<open>$set\<close> with the fields of the update and with
  \<open>updatedAt\<close> set to the time of the request.\<close>

theorem timestamps_added:
  fixes E :: "'s env"
  assumes "authorized E req" and "\<not> missingTarget req" and "verb req = POST"
  shows
   "(path req = ''/insert'' \<and> truthy (getProp (body req) ''document'') \<longrightarrow>
       map fst (calls (snd (p1 E req w))) = map fst (calls w) @
         [InsertOne (getProp (body req) ''dbName'') (getProp (body req) ''collectionName'')
            (stamped (getProp (body req) ''document'') (now E))])
    \<and> getProp (stamped (getProp (body req) ''document'') (now E)) ''createdAt'' = now E
    \<and> getProp (stamped (getProp (body req) ''document'') (now E)) ''updatedAt'' = now E
    \<and> (\<forall>k. k \<noteq> ''createdAt'' \<and> k \<noteq> ''updatedAt'' \<longrightarrow>
          getProp (stamped (getProp (body req) ''document'') (now E)) k
            = getProp (Obj (ownProps (getProp (body req) ''document''))) k)
    \<and> (path req = ''/findByIdAndUpdate''
         \<and> truthy (getProp (body req) ''id'') \<and> truthy (getProp (body req) ''update'') \<longrightarrow>
         (\<forall>oid. newObjectId E (getProp (body req) ''id'') = Inr oid \<longrightarrow>
            map fst (calls (snd (p1 E req w))) = map fst (calls w) @
              [FindOneAndUpdate (getProp (body req) ''dbName'') (getProp (body req) ''collectionName'')
                 (Obj [(''_id'', oid)]) (touched (getProp (body req) ''update'') (now E))
                 (Obj [(''returnNewDocument'', Bool True)])]))
    \<and> (\<exists>u. touched (getProp (body req) ''update'') (now E) = Obj [(''$set'', u)]
          \<and> getProp u ''updatedAt'' = now E
          \<and> (\<forall>k. k \<noteq> ''updatedAt'' \<longrightarrow>
                getProp u k = getProp (Obj (ownProps (getProp (body req) ''update''))) k))"
proof -
  have 1: "path req = ''/insert'' \<and> truthy (getProp (body req) ''document'') \<longrightarrow>
       map fst (calls (snd (p1 E req w))) = map fst (calls w) @
         [InsertOne (getProp (body req) ''dbName'') (getProp (body req) ''collectionName'')
            (stamped (getProp (body req) ''document'') (now E))]"
    using p1_insert_handler_of [OF assms, of w] p1_insert_ops [of req E w]
    by (simp add: snd_settle)
  have 2: "path req = ''/findByIdAndUpdate''
         \<and> truthy (getProp (body req) ''id'') \<and> truthy (getProp (body req) ''update'') \<longrightarrow>
         (\<forall>oid. newObjectId E (getProp (body req) ''id'') = Inr oid \<longrightarrow>
            map fst (calls (snd (p1 E req w))) = map fst (calls w) @
              [FindOneAndUpdate (getProp (body req) ''dbName'') (getProp (body req) ''collectionName'')
                 (Obj [(''_id'', oid)]) (touched (getProp (body req) ''update'') (now E))
                 (Obj [(''returnNewDocument'', Bool True)])])"
    using update_handler_of [OF assms, of w] app_update_ops [of req E _ w]
    by (simp add: snd_settle)
  from 1 2 stamped_fields [of "getProp (body req) ''document''" "now E"]
    touched_fields [of "getProp (body req) ''update''" "now E"]
  show ?thesis by blast
qed

text \<open>A run: Alice is inserted into the empty collection at time 1000.\<close>

theorem timestamps_added_witness:
  "authorized memEnv (authed POST ''/insert'' [(''document'', Obj [(''name'', Str ''Alice''), (''age'', Num 30)])])
   \<and> \<not> missingTarget (authed POST ''/insert'' [(''document'', Obj [(''name'', Str ''Alice''), (''age'', Num 30)])])
   \<and> map fst (calls (snd (p1 memEnv
         (authed POST ''/insert'' [(''document'', Obj [(''name'', Str ''Alice''), (''age'', Num 30)])])
         (start []))))
       = [InsertOne (Str ''shop'') (Str ''users'')
            (Obj [(''name'', Str ''Alice''), (''age'', Num 30),
                  (''createdAt'', Date 1000), (''updatedAt'', Date 1000)])]
   \<and> dbState (snd (p1 memEnv
         (authed POST ''/insert'' [(''document'', Obj [(''name'', Str ''Alice''), (''age'', Num 30)])])
         (start [])))
       = [Obj [(''_id'', ObjectId ''0''), (''name'', Str ''Alice''), (''age'', Num 30),
               (''createdAt'', Date 1000), (''updatedAt'', Date 1000)]]"
proof -
  let ?req = "authed POST ''/insert'' [(''document'', Obj [(''name'', Str ''Alice''), (''age'', Num 30)])]"
  have a: "authorized memEnv ?req" and t: "\<not> missingTarget ?req" and v: "verb ?req = POST"
    and p: "path ?req = ''/insert''"
    and d: "getProp (body ?req) ''document'' = Obj [(''name'', Str ''Alice''), (''age'', Num 30)]"
      "getProp (body ?req) ''dbName'' = Str ''shop''"
      "getProp (body ?req) ''collectionName'' = Str ''users''"
    by (simp_all add: run_defs)
  have 1: "map fst (calls (snd (p1 memEnv ?req (start [])))) =
      [InsertOne (Str ''shop'') (Str ''users'')
            (Obj [(''name'', Str ''Alice''), (''age'', Num 30),
                  (''createdAt'', Date 1000), (''updatedAt'', Date 1000)])]"
    using timestamps_added [OF a t v, of "start []"] p d
    by (simp add: start_def stamped_def memEnv_def)
  have 2: "dbState (snd (p1 memEnv ?req (start []))) =
      [Obj [(''_id'', ObjectId ''0''), (''name'', Str ''Alice''), (''age'', Num 30),
               (''createdAt'', Date 1000), (''updatedAt'', Date 1000)]]"
    using a t v p d
    by (simp add: p1_def p1_route_def p1_insert_def asyncHandler_def await_def call_def Let_def
        memEnv_def start_def stamped_def withId_def showNat_0)
  from a t 1 2 show ?thesis by simp
qed

section \<open>The modifier \<open>$set\<close>\<close>









section \<open>C10: an update leaves the other fields alone\<close>



section \<open>The responses of \<open>/create\<close>, \<open>/insert\<close> and \<open>/insertMany\<close>\<close>

text \<open>In src/app.js and in the variant with timestamps: when the operations of the
  client succeed, \<open>/create\<close> answers 201 with the message that names the collection,
  \<open>/insert\<close> answers 201 with the result of \<open>insertOne\<close>, which carries the new
  identifier, and \<open>/insertMany\<close> answers 201 with the result of \<open>insertMany\<close>, whose
  \<open>insertedCount\<close> is the number of documents of the request.\<close>

lemma memClient_reportsInserted: "reportsInserted memClient"
  by (auto simp: reportsInserted_def split: if_splits)

lemma create_responds:
  fixes E :: "'s env"
  assumes "authorized E req" and "\<not> missingTarget req"
    and "verb req = POST" and "path req = ''/create''"
    and "succeeds (dbClient E) (CreateCollection (getProp (body req) ''dbName'') (getProp (body req) ''collectionName''))"
    and "succeeds (dbClient E) (CreateIndex (getProp (body req) ''dbName'') (getProp (body req) ''collectionName'')
           (getProp (body req) ''index''))"
    and "succeeds (dbClient E) (CreateSearchIndex (getProp (body req) ''dbName'') (getProp (body req) ''collectionName'')
           (getProp (body req) ''searchIndex''))"
  shows "fst (app E req w) = Some (json 201 (Obj [(''message'',
            Str (''Collection '' @ template E (getProp (body req) ''collectionName'') @ '' created''))]))
       \<and> fst (p1 E req w) = fst (app E req w)"
proof -
  have h: "app E req w = app_settle E (app_create E req w)"
    "p1 E req w = asyncHandler (app_create E req w)"
    using assms(1-4) by (simp_all add: app_def p1_def app_route_def p1_route_def)
  have "\<exists>w'. app_create E req w = (Inr (json 201 (Obj [(''message'',
            Str (''Collection '' @ template E (getProp (body req) ''collectionName'') @ '' created''))])), w')"
    using assms(5-7) unfolding succeeds_def app_create_def await_def call_def Let_def
    by (auto split: prod.splits sum.splits) (metis Inl_Inr_False fst_conv)+
  then show ?thesis using h by (auto simp: app_settle_def asyncHandler_def)
qed


lemma insert_responds:
  fixes E :: "'s env"
  assumes "authorized E req" and "\<not> missingTarget req"
    and "verb req = POST" and "path req = ''/insert''"
    and "truthy (getProp (body req) ''document'')"
    and "reportsInserted (dbClient E)"
  shows "(succeeds (dbClient E) (InsertOne (getProp (body req) ''dbName'') (getProp (body req) ''collectionName'')
            (getProp (body req) ''document'')) \<longrightarrow>
          (\<exists>res. fst (app E req w) = Some (json 201 res) \<and> getProp res ''insertedId'' \<noteq> Undefined))
       \<and> (succeeds (dbClient E) (InsertOne (getProp (body req) ''dbName'') (getProp (body req) ''collectionName'')
            (stamped (getProp (body req) ''document'') (now E))) \<longrightarrow>
          (\<exists>res. fst (p1 E req w) = Some (json 201 res) \<and> getProp res ''insertedId'' \<noteq> Undefined))"
proof -
  have h: "app E req w = app_settle E (app_insert E req w)"
    "p1 E req w = asyncHandler (p1_insert E req w)"
    using assms(1-4) by (simp_all add: app_def p1_def app_route_def p1_route_def)
  have ins: "\<And>doc. succeeds (dbClient E) (InsertOne (getProp (body req) ''dbName'')
        (getProp (body req) ''collectionName'') doc) \<Longrightarrow>
      \<exists>res s'. dbClient E (InsertOne (getProp (body req) ''dbName'')
        (getProp (body req) ''collectionName'') doc) (dbState w) = (Inr res, s')
        \<and> getProp res ''insertedId'' \<noteq> Undefined"
    using assms(6) unfolding succeeds_def reportsInserted_def by metis
  show ?thesis
  proof (intro conjI impI)
    assume "succeeds (dbClient E) (InsertOne (getProp (body req) ''dbName'')
        (getProp (body req) ''collectionName'') (getProp (body req) ''document''))"
    from ins [OF this] obtain res s' where
      "dbClient E (InsertOne (getProp (body req) ''dbName'')
        (getProp (body req) ''collectionName'') (getProp (body req) ''document'')) (dbState w) = (Inr res, s')"
      and i: "getProp res ''insertedId'' \<noteq> Undefined" by blast
    with assms(5) h(1) have "fst (app E req w) = Some (json 201 res)"
      by (simp add: app_insert_def await_def call_def Let_def app_settle_def)
    with i show "\<exists>res. fst (app E req w) = Some (json 201 res) \<and> getProp res ''insertedId'' \<noteq> Undefined"
      by blast
  next
    assume "succeeds (dbClient E) (InsertOne (getProp (body req) ''dbName'')
        (getProp (body req) ''collectionName'') (stamped (getProp (body req) ''document'') (now E)))"
    from ins [OF this] obtain res s' where
      "dbClient E (InsertOne (getProp (body req) ''dbName'')
        (getProp (body req) ''collectionName'') (stamped (getProp (body req) ''document'') (now E)))
        (dbState w) = (Inr res, s')"
      and i: "getProp res ''insertedId'' \<noteq> Undefined" by blast
    with assms(5) h(2) have "fst (p1 E req w) = Some (json 201 res)"
      by (simp add: p1_insert_def await_def call_def Let_def asyncHandler_def)
    with i show "\<exists>res. fst (p1 E req w) = Some (json 201 res) \<and> getProp res ''insertedId'' \<noteq> Undefined"
      by blast
  qed
qed

lemma insertMany_responds:
  fixes E :: "'s env"
  assumes "authorized E req" and "\<not> missingTarget req"
    and "verb req = POST" and "path req = ''/insertMany''"
    and "isArray (getProp (body req) ''documents'')" and "0 < arrLength (getProp (body req) ''documents'')"
    and "reportsInserted (dbClient E)"
    and "succeeds (dbClient E) (InsertMany (getProp (body req) ''dbName'') (getProp (body req) ''collectionName'')
            (getProp (body req) ''documents''))"
  shows "\<exists>res. fst (app E req w) = Some (json 201 res) \<and> fst (p1 E req w) = Some (json 201 res)
          \<and> getProp res ''insertedCount'' = Num (int (arrLength (getProp (body req) ''documents'')))"
proof -
  have h: "app E req w = app_settle E (app_insertMany E req w)"
    "p1 E req w = asyncHandler (app_insertMany E req w)"
    using assms(1-4) by (simp_all add: app_def p1_def app_route_def p1_route_def)
  have "\<exists>res s'. dbClient E (InsertMany (getProp (body req) ''dbName'')
        (getProp (body req) ''collectionName'') (getProp (body req) ''documents'')) (dbState w) = (Inr res, s')
        \<and> getProp res ''insertedCount'' = Num (int (arrLength (getProp (body req) ''documents'')))"
    using assms(7,8) unfolding succeeds_def reportsInserted_def by metis
  then obtain res s' where
    "dbClient E (InsertMany (getProp (body req) ''dbName'')
        (getProp (body req) ''collectionName'') (getProp (body req) ''documents'')) (dbState w) = (Inr res, s')"
    and i: "getProp res ''insertedCount'' = Num (int (arrLength (getProp (body req) ''documents'')))"
    by blast
  with assms(5,6) h have "fst (app E req w) = Some (json 201 res) \<and> fst (p1 E req w) = Some (json 201 res)"
    by (simp add: app_insertMany_def await_def call_def Let_def app_settle_def asyncHandler_def)
  with i show ?thesis by blast
qed

section \<open>C7: the responses in the variant with one database\<close>

text \<open>C7 says that \<open>POST /create\<close>, \<open>POST /insert\<close> and \<open>POST /insertMany\<close> answer 201
  with the expected results. The code at the three requests of the test suite in
  the variant with one database: each is answered 500 with the TypeError of a method
  read on \<open>undefined\<close>, because \<open>db\<close> is never assigned; and with a client handle in \<open>db\<close>,
  \<open>/create\<close> still answers 500, with the ReferenceError of its shadowed constant.
  src/app.js answers the same \<open>/create\<close> with 201 and the message.\<close>

theorem create_insert_fail_without_db:
  "fst (p0 memEnv (authed POST ''/create'' []) (start []))
     = Some (errorJson 500 (undefinedRead ''listCollections''))
   \<and> fst (p0 memEnv (authed POST ''/insert'' [(''document'', Obj [(''name'', Str ''Alice'')])]) (start []))
     = Some (errorJson 500 (undefinedRead ''collection''))
   \<and> fst (p0 memEnv (authed POST ''/insertMany''
             [(''documents'', Arr [Obj [(''name'', Str ''Bob'')], Obj [(''name'', Str ''Charlie'')]])]) (start []))
     = Some (errorJson 500 (undefinedRead ''collection''))
   \<and> fst (p0_with (Some memClient) memEnv (authed POST ''/create'' []) (start []))
     = Some (errorJson 500
         (''Cannot access '' @ [CHR 0x27] @ ''collection'' @ [CHR 0x27] @ '' before initialization''))
   \<and> fst (app memEnv (authed POST ''/create'' []) (start []))
     = Some (json 201 (Obj [(''message'', Str ''Collection users created'')]))"
  by (simp add: p0_def p0_with_def p0_route_def p0_create_def p0_insert_def p0_insertMany_def
      tryCatch_def await_def attempt_def p0_call_def Let_def run_defs
      app_def app_route_def app_create_def app_settle_def call_def json_def)



section \<open>C8: the identifier in the variant with one database\<close>

text \<open>C8 says that on every \<open>/findByIdAndUpdate\<close> and \<open>/findByIdAndDelete\<close> the
  identifier of the request becomes a native identifier before it is used in the
  filter, so that the operation reaches the document. The code at the update of
  David's age in the variant with one database: the request is answered 500 and
  nothing is invoked, because \<open>db\<close> is undefined; and with a client handle in \<open>db\<close> the
  handler's filter is \<open>{_id: '0'}\<close>, the string as it came, which matches no document,
  so that David stays as he is. Through src/app.js the same update reaches him.\<close>

theorem update_by_id_without_coercion:
  "p0 memEnv putRequest (start [david])
     = (Some (errorJson 500 (undefinedRead ''collection'')), start [david])
   \<and> map fst (calls (snd (p0_with (Some memClient) memEnv putRequest (start [david]))))
     = [FindOneAndUpdate Undefined (Str ''users'') (Obj [(''_id'', Str ''0'')])
          (Obj [(''$set'', Obj [(''age'', Num 41)])]) (Obj [(''returnOriginal'', Bool True)])]
   \<and> p0_with (Some memClient) memEnv putRequest (start [david])
     = (Some (json 200 (Obj [(''value'', Null)])),
        \<lparr>dbState = [david],
         calls = [(FindOneAndUpdate Undefined (Str ''users'') (Obj [(''_id'', Str ''0'')])
                     (Obj [(''$set'', Obj [(''age'', Num 41)])]) (Obj [(''returnOriginal'', Bool True)]),
                   Inr (Obj [(''value'', Null)]))]\<rparr>)
   \<and> dbState (snd (app memEnv updateRequest (start [david])))
     = [Obj [(''_id'', ObjectId ''0''), (''name'', Str ''David''), (''age'', Num 41)]]"
  by (simp add: p0_def p0_with_def p0_route_def p0_findByIdAndUpdate_def
      tryCatch_def await_def attempt_def p0_call_def Let_def run_defs putRequest_def updateRequest_def
      david_def memUpdate_def applySet_def firstMatch_def
      app_def app_route_def app_findByIdAndUpdate_def app_settle_def call_def json_def)

end
